theory Spec2Isabelle
  imports Complex_Main
begin

section \<open>The Image shape (src/shapes/Image.ts)\<close>

text \<open>
  A shallow embedding of the class \<^verbatim>\<open>Image extends Shape\<close>. The file under study is
  Image.ts; the classes and helpers it builds on (Shape, Node, Factory, Util,
  Validators, the drawing context) live in other files. What Image.ts only calls
  is either a field of the node (the inherited Shape predicates) or a definition marked
  as modelled from the specification.

  Numbers are the finite values of a JavaScript number, written as reals: no method of the
  class does arithmetic, they only test a number against 0 or 1. NaN and the infinities
  are not represented.
\<close>

subsection \<open>Values\<close>

text \<open>
  An image source is the handle the node borrows: the only things the class reads through
  it are the intrinsic \<^verbatim>\<open>width\<close> and \<^verbatim>\<open>height\<close>.
\<close>

record image_source =
  src_id :: nat
  img_width :: real
  img_height :: real

datatype jsval =
    JUndefined
  | JNull
  | JBool bool
  | JNum real
  | JStr string
  | JObj nat

fun truthy :: "jsval \<Rightarrow> bool" where
  "truthy JUndefined = False"
| "truthy JNull = False"
| "truthy (JBool b) = b"
| "truthy (JNum r) = (r \<noteq> 0)"
| "truthy (JStr s) = (s \<noteq> [])"
| "truthy (JObj _) = True"

subsection \<open>The node\<close>

text \<open>
  \<^verbatim>\<open>this.attrs\<close>: the attributes the class addresses. An attribute that was never set
  is \<^verbatim>\<open>undefined\<close>, here \<open>None\<close>.
\<close>

record attrs =
  attr_image :: "image_source option"
  attr_width :: "real option"
  attr_height :: "real option"
  attr_cropX :: "real option"
  attr_cropY :: "real option"
  attr_cropWidth :: "real option"
  attr_cropHeight :: "real option"

text \<open>
  The part of a node that Shape and Node own. Shape.ts and Node.ts are not part of the
  source under study, so what their methods \<^verbatim>\<open>hasFill()\<close>, \<^verbatim>\<open>hasStroke()\<close>,
  \<^verbatim>\<open>hasShadow()\<close>, \<^verbatim>\<open>getAbsoluteOpacity()\<close> and \<^verbatim>\<open>getStage()\<close> return for a node
  is a parameter: one field each, named after the method. \<open>getStage\<close> is the stage handle,
  \<open>None\<close> for a node that is in no stage. \<open>changes\<close> is the list of change notifications
  fired so far, oldest first.
\<close>

record shape =
  hasFill :: bool
  hasStroke :: bool
  hasShadow :: bool
  getAbsoluteOpacity :: real
  getStage :: "nat option"
  changes :: "string list"

record node = shape +
  attrs :: attrs

subsection \<open>The drawing context\<close>

datatype arg = AImage image_source | ANum real

text \<open>
  The calls Image.ts makes on the context. The context is the list of calls issued on it,
  oldest first; a call that raises was still issued and is in the list.
\<close>

datatype call =
    BeginPath
  | Rect real real real real
  | ClosePath
  | FillStrokeShape node
  | DrawImage "arg list"

fun isDrawImage :: "call \<Rightarrow> bool" where
  "isDrawImage (DrawImage _) = True"
| "isDrawImage _ = False"

datatype error =
    ValidationError string jsval
  | ContextError call

text \<open>
  One call on the context. Which calls raise is the context's business and a parameter
  \<open>raises\<close> of every method that draws.
\<close>

definition invoke :: "(call \<Rightarrow> bool) \<Rightarrow> call \<Rightarrow> call list \<Rightarrow> (error + unit) \<times> call list" where
  "invoke raises c context =
     (if raises c then Inl (ContextError c) else Inr (), context @ [c])"

text \<open>Statements in sequence: the first call that raises aborts the rest.\<close>

fun invoke_all :: "(call \<Rightarrow> bool) \<Rightarrow> call list \<Rightarrow> call list \<Rightarrow> (error + unit) \<times> call list" where
  "invoke_all raises [] context = (Inr (), context)"
| "invoke_all raises (c # cs) context =
     (case invoke raises c context of
        (Inl e, context') \<Rightarrow> (Inl e, context')
      | (Inr _, context') \<Rightarrow> invoke_all raises cs context')"

subsection \<open>Attribute accessors\<close>

text \<open>
  Modelled from the spec: the getters that \<^verbatim>\<open>Factory.addGetterSetter\<close> (Factory.ts, not
  in the source under study) installs for \<^verbatim>\<open>image\<close>, \<^verbatim>\<open>cropX\<close>, \<^verbatim>\<open>cropY\<close>,
  \<^verbatim>\<open>cropWidth\<close> and \<^verbatim>\<open>cropHeight\<close>: "a getter returning the stored value or
  defaultValue when absent". Image.ts gives the four crop attributes the default 0 and
  \<^verbatim>\<open>image\<close> none.
\<close>

definition image_acc :: "node \<Rightarrow> image_source option" where
  "image_acc this = attr_image (attrs this)"

definition cropX :: "node \<Rightarrow> real" where
  "cropX this = (case attr_cropX (attrs this) of None \<Rightarrow> 0 | Some v \<Rightarrow> v)"

definition cropY :: "node \<Rightarrow> real" where
  "cropY this = (case attr_cropY (attrs this) of None \<Rightarrow> 0 | Some v \<Rightarrow> v)"

definition cropWidth :: "node \<Rightarrow> real" where
  "cropWidth this = (case attr_cropWidth (attrs this) of None \<Rightarrow> 0 | Some v \<Rightarrow> v)"

definition cropHeight :: "node \<Rightarrow> real" where
  "cropHeight this = (case attr_cropHeight (attrs this) of None \<Rightarrow> 0 | Some v \<Rightarrow> v)"

subsection \<open>The methods of the class\<close>

text \<open>
  Every method takes the node and returns it next to its result, so that what a method
  does to the node is part of its value.
\<close>

text \<open>
  \<^verbatim>\<open>_useBufferCanvas\<close> (lines 38 to 44). \<^verbatim>\<open>a && b\<close> is \<^verbatim>\<open>a\<close> when \<^verbatim>\<open>a\<close> is falsy and
  \<^verbatim>\<open>b\<close> otherwise, so the method returns \<^verbatim>\<open>false\<close> or what \<^verbatim>\<open>getStage()\<close> returns.
\<close>

definition useBufferCanvas :: "node \<Rightarrow> jsval \<times> node" where
  "useBufferCanvas this =
     (if hasShadow this \<or> getAbsoluteOpacity this \<noteq> 1 then
        if hasStroke this then
          (case getStage this of None \<Rightarrow> JUndefined | Some s \<Rightarrow> JObj s, this)
        else (JBool False, this)
      else (JBool False, this))"

text \<open>
  \<^verbatim>\<open>getWidth\<close> and \<^verbatim>\<open>getHeight\<close> (lines 96 to 103):
  \<^verbatim>\<open>this.attrs.width || (image ? image.width : 0)\<close>. The left operand is falsy when the
  attribute is undefined or 0.
\<close>

definition getWidth :: "node \<Rightarrow> real \<times> node" where
  "getWidth this =
     (let image = image_acc this;
          alt = (case image of Some img \<Rightarrow> img_width img | None \<Rightarrow> 0)
      in (case attr_width (attrs this) of
            Some w \<Rightarrow> if w \<noteq> 0 then w else alt
          | None \<Rightarrow> alt, this))"

definition getHeight :: "node \<Rightarrow> real \<times> node" where
  "getHeight this =
     (let image = image_acc this;
          alt = (case image of Some img \<Rightarrow> img_height img | None \<Rightarrow> 0)
      in (case attr_height (attrs this) of
            Some h \<Rightarrow> if h \<noteq> 0 then h else alt
          | None \<Rightarrow> alt, this))"

text \<open>
  Modelled from the spec: the overloaded accessors \<^verbatim>\<open>width()\<close> and \<^verbatim>\<open>height()\<close> read,
  which Node.ts and Factory.ts (not in the source under study) install. The scene paint
  calls \<^verbatim>\<open>this.width()\<close> and \<^verbatim>\<open>this.height()\<close>, and the specification has it
  "compute width, height via the above", the above being \<^verbatim>\<open>getWidth()\<close> and
  \<^verbatim>\<open>getHeight()\<close>: reading the accessor is a call of the class's own getter.
\<close>

definition width :: "node \<Rightarrow> real \<times> node" where
  "width this = getWidth this"

definition height :: "node \<Rightarrow> real \<times> node" where
  "height this = getHeight this"

text \<open>
  \<^verbatim>\<open>_sceneFunc\<close> (lines 45 to 86). \<open>params\<close> stays undefined (\<open>None\<close>) without an image;
  \<^verbatim>\<open>drawImage.apply(context, params)\<close> passes the elements of \<open>params\<close> as the
  arguments. The \<^verbatim>\<open>try\<close> around it has an empty \<^verbatim>\<open>catch\<close>: whatever \<^verbatim>\<open>drawImage\<close>
  raises is dropped. The four calls that paint the background are outside the \<^verbatim>\<open>try\<close>.
\<close>

definition sceneFunc :: "(call \<Rightarrow> bool) \<Rightarrow> node \<Rightarrow> call list \<Rightarrow> (error + unit) \<times> node \<times> call list" where
  "sceneFunc raises this0 context =
     (let (width', this1) = width this0;
          (height', this2) = height this1;
          image = image_acc this2;
          params =
            (case image of
               Some img \<Rightarrow>
                 (let cropWidth' = cropWidth this2;
                      cropHeight' = cropHeight this2
                  in if cropWidth' \<noteq> 0 \<and> cropHeight' \<noteq> 0 then
                       Some [AImage img, ANum (cropX this2), ANum (cropY this2),
                             ANum cropWidth', ANum cropHeight',
                             ANum 0, ANum 0, ANum width', ANum height']
                     else Some [AImage img, ANum 0, ANum 0, ANum width', ANum height'])
             | None \<Rightarrow> None);
          (r, context1) =
            (if hasFill this2 \<or> hasStroke this2 then
               invoke_all raises
                 [BeginPath, Rect 0 0 width' height', ClosePath, FillStrokeShape this2] context
             else (Inr (), context))
      in case r of
           Inl e \<Rightarrow> (Inl e, this2, context1)
         | Inr _ \<Rightarrow>
             (case image of
                Some img \<Rightarrow>
                  (let (r', context2) =
                         invoke raises (DrawImage (case params of Some ps \<Rightarrow> ps | None \<Rightarrow> [])) context1
                   in (Inr (), this2, context2))
              | None \<Rightarrow> (Inr (), this2, context1)))"

text \<open>\<^verbatim>\<open>_hitFunc\<close> (lines 87 to 95): the four calls, none of them guarded.\<close>

definition hitFunc :: "(call \<Rightarrow> bool) \<Rightarrow> node \<Rightarrow> call list \<Rightarrow> (error + unit) \<times> node \<times> call list" where
  "hitFunc raises this0 context =
     (let (width', this1) = width this0;
          (height', this2) = height this1;
          (r, context1) =
            invoke_all raises
              [BeginPath, Rect 0 0 width' height', ClosePath, FillStrokeShape this2] context
      in (r, this2, context1))"

subsection \<open>Setters\<close>

text \<open>
  Modelled from the spec: the validator \<^verbatim>\<open>getNumberValidator()\<close> of Validators.ts, which
  is not in the source under study: "validator signals failure by raising an error
  describing the expected type/shape and the offending value", "setting a non-numeric value
  to a numeric-validated attribute fails with a ValidationError-class condition carrying
  the attribute name and received value".
\<close>

definition getNumberValidator :: "jsval \<Rightarrow> string \<Rightarrow> error + real" where
  "getNumberValidator val name =
     (case val of JNum v \<Rightarrow> Inr v | _ \<Rightarrow> Inl (ValidationError name val))"

text \<open>
  Modelled from the spec: the change notification of Node.ts, which is not in the source
  under study: the setter "triggers a change notification on that attribute name".
\<close>

definition fireChange :: "string \<Rightarrow> node \<Rightarrow> node" where
  "fireChange name this = this\<lparr>changes := changes this @ [name]\<rparr>"

text \<open>
  Modelled from the spec: the setter that \<^verbatim>\<open>Factory.addGetterSetter\<close> (Factory.ts, not
  in the source under study) installs for a validated attribute: it "(a) runs
  validator(newValue, name) if provided", "(b) stores the value; (c) triggers a change
  notification on that attribute name", and "no partial mutation occurs on failure".
  \<open>store\<close> is the write to the one field of \<^verbatim>\<open>this.attrs\<close>.
\<close>

definition setter :: "string \<Rightarrow> (real \<Rightarrow> attrs \<Rightarrow> attrs) \<Rightarrow> jsval \<Rightarrow> node \<Rightarrow> error + node" where
  "setter name store val this =
     (case getNumberValidator val name of
        Inl e \<Rightarrow> Inl e
      | Inr v \<Rightarrow> Inr (fireChange name (this\<lparr>attrs := store v (attrs this)\<rparr>)))"

text \<open>
  Modelled from the spec: the six numeric setters. Image.ts installs the four crop ones
  (lines 179 to 224) with \<^verbatim>\<open>Factory.addGetterSetter(Image, name, 0, getNumberValidator())\<close>;
  \<^verbatim>\<open>width\<close> and \<^verbatim>\<open>height\<close> are installed the same way by Node.ts, which is not in the
  source under study.
\<close>

definition set_cropX :: "jsval \<Rightarrow> node \<Rightarrow> error + node" where
  "set_cropX = setter ''cropX'' (\<lambda>v a. a\<lparr>attr_cropX := Some v\<rparr>)"

definition set_cropY :: "jsval \<Rightarrow> node \<Rightarrow> error + node" where
  "set_cropY = setter ''cropY'' (\<lambda>v a. a\<lparr>attr_cropY := Some v\<rparr>)"

definition set_cropWidth :: "jsval \<Rightarrow> node \<Rightarrow> error + node" where
  "set_cropWidth = setter ''cropWidth'' (\<lambda>v a. a\<lparr>attr_cropWidth := Some v\<rparr>)"

definition set_cropHeight :: "jsval \<Rightarrow> node \<Rightarrow> error + node" where
  "set_cropHeight = setter ''cropHeight'' (\<lambda>v a. a\<lparr>attr_cropHeight := Some v\<rparr>)"

definition set_width :: "jsval \<Rightarrow> node \<Rightarrow> error + node" where
  "set_width = setter ''width'' (\<lambda>v a. a\<lparr>attr_width := Some v\<rparr>)"

definition set_height :: "jsval \<Rightarrow> node \<Rightarrow> error + node" where
  "set_height = setter ''height'' (\<lambda>v a. a\<lparr>attr_height := Some v\<rparr>)"

subsection \<open>The composite attribute crop\<close>

text \<open>\<^verbatim>\<open>IRect\<close>, what \<^verbatim>\<open>crop()\<close> returns.\<close>

record rect =
  rect_x :: real
  rect_y :: real
  rect_width :: real
  rect_height :: real

text \<open>The object handed to \<^verbatim>\<open>crop(...)\<close>: any of the four keys may be missing.\<close>

record rect_arg =
  arg_x :: "jsval option"
  arg_y :: "jsval option"
  arg_width :: "jsval option"
  arg_height :: "jsval option"

text \<open>
  Modelled from the spec: the accessors that
  \<^verbatim>\<open>Factory.addComponentsGetterSetter(Image, 'crop', ['x', 'y', 'width', 'height'])\<close>
  (line 155; Factory.ts is not in the source under study) installs: "a composite getter
  that reads each name+Capitalized(component) attribute and assembles an object; a
  composite setter that accepts either a full object or partial object, decomposes into
  the underlying per-component attributes, and writes each through the same validated
  path, leaving unspecified components at their prior value".
\<close>

definition crop :: "node \<Rightarrow> rect" where
  "crop this =
     \<lparr>rect_x = cropX this, rect_y = cropY this,
      rect_width = cropWidth this, rect_height = cropHeight this\<rparr>"

definition set_component :: "(jsval \<Rightarrow> node \<Rightarrow> error + node) \<Rightarrow> jsval option \<Rightarrow> error + node \<Rightarrow> error + node" where
  "set_component write val r =
     (case r of
        Inl e \<Rightarrow> Inl e
      | Inr this \<Rightarrow> (case val of None \<Rightarrow> Inr this | Some v \<Rightarrow> write v this))"

definition set_crop :: "rect_arg \<Rightarrow> node \<Rightarrow> error + node" where
  "set_crop val this =
     set_component set_cropHeight (arg_height val)
       (set_component set_cropWidth (arg_width val)
          (set_component set_cropY (arg_y val)
             (set_component set_cropX (arg_x val) (Inr this))))"

subsection \<open>Construction and the loader\<close>

text \<open>
  Modelled from the spec: the constructor, which Image inherits from Node.ts (not in the
  source under study): "attributes are set at construction from a configuration mapping".
  What Shape and Node set up for a fresh node is the parameter \<open>fresh\<close>.
\<close>

definition new_Image :: "shape \<Rightarrow> attrs \<Rightarrow> node" where
  "new_Image fresh config =
     \<lparr>hasFill = hasFill fresh, hasStroke = hasStroke fresh, hasShadow = hasShadow fresh,
      getAbsoluteOpacity = getAbsoluteOpacity fresh, getStage = getStage fresh,
      changes = changes fresh, attrs = config\<rparr>"

text \<open>The configuration \<^verbatim>\<open>{image: img}\<close>.\<close>

definition config_image :: "image_source \<Rightarrow> attrs" where
  "config_image img =
     \<lparr>attr_image = Some img, attr_width = None, attr_height = None,
      attr_cropX = None, attr_cropY = None, attr_cropWidth = None, attr_cropHeight = None\<rparr>"

text \<open>
  A platform image element, as far as \<^verbatim>\<open>fromURL\<close> touches it. \<open>el_source\<close> is the
  element seen as an image source. A handler is a closure over the element: it gets the
  element's source as it is when the handler runs, and acts on the state \<open>'s\<close> of the
  rest of the program. \<open>el_requests\<close> lists the fetches started, oldest first, each with
  the URL and the \<^verbatim>\<open>crossOrigin\<close> that was in force when \<^verbatim>\<open>src\<close> was assigned.
\<close>

record 's img_element =
  el_source :: image_source
  el_onload :: "(image_source \<Rightarrow> 's \<Rightarrow> 's) option"
  el_onerror :: "(image_source \<Rightarrow> 's \<Rightarrow> 's) option"
  el_crossOrigin :: "string option"
  el_src :: "string option"
  el_requests :: "(string \<times> string option) list"

text \<open>
  Modelled from the spec: \<^verbatim>\<open>Util.createImageElement()\<close> of Util.ts, which is not in the
  source under study: it "creates a platform image element". \<open>h\<close> is the handle the
  platform gives the new element.
\<close>

definition createImageElement :: "image_source \<Rightarrow> 's img_element" where
  "createImageElement h =
     \<lparr>el_source = h, el_onload = None, el_onerror = None,
      el_crossOrigin = None, el_src = None, el_requests = []\<rparr>"

text \<open>The platform's part in \<^verbatim>\<open>img.src = url\<close>: the assignment starts the fetch.\<close>

definition assign_src :: "string \<Rightarrow> 's img_element \<Rightarrow> 's img_element" where
  "assign_src url img =
     img\<lparr>el_src := Some url, el_requests := el_requests img @ [(url, el_crossOrigin img)]\<rparr>"

text \<open>
  \<^verbatim>\<open>fromURL\<close> (lines 118 to 128), the three assignments in the order of the source. The
  method returns nothing; the value here is the element it leaves behind.
\<close>

definition fromURL :: "shape \<Rightarrow> image_source \<Rightarrow> string \<Rightarrow> (node \<Rightarrow> 's \<Rightarrow> 's) \<Rightarrow> 's img_element" where
  "fromURL fresh h url callback =
     (let img = createImageElement h;
          img1 = img\<lparr>el_onload := Some (\<lambda>img'. callback (new_Image fresh (config_image img')))\<rparr>;
          img2 = img1\<lparr>el_crossOrigin := Some ''Anonymous''\<rparr>;
          img3 = assign_src url img2
      in img3)"

text \<open>
  The platform's part when a fetch ends: a load makes the intrinsic size known and runs
  the \<^verbatim>\<open>onload\<close> handler if there is one; a failure runs the \<^verbatim>\<open>onerror\<close> handler if
  there is one.
\<close>

datatype fetch_end = Loaded real real | Failed

definition deliver :: "fetch_end \<Rightarrow> 's img_element \<Rightarrow> 's \<Rightarrow> 's" where
  "deliver ev img s =
     (case ev of
        Loaded w h \<Rightarrow>
          (case el_onload img of
             None \<Rightarrow> s
           | Some handler \<Rightarrow> handler ((el_source img)\<lparr>img_width := w, img_height := h\<rparr>) s)
      | Failed \<Rightarrow>
          (case el_onerror img of
             None \<Rightarrow> s
           | Some handler \<Rightarrow> handler (el_source img) s))"

subsection \<open>Sample nodes\<close>

definition no_attrs :: attrs where
  "no_attrs =
     \<lparr>attr_image = None, attr_width = None, attr_height = None,
      attr_cropX = None, attr_cropY = None, attr_cropWidth = None, attr_cropHeight = None\<rparr>"

definition plain_shape :: shape where
  "plain_shape =
     \<lparr>hasFill = False, hasStroke = False, hasShadow = False,
      getAbsoluteOpacity = 1, getStage = None, changes = []\<rparr>"

definition img50 :: image_source where
  "img50 = \<lparr>src_id = 7, img_width = 50, img_height = 50\<rparr>"

text \<open>A node with nothing set, and one that wraps a 50 by 50 source.\<close>

definition bare_node :: node where
  "bare_node = new_Image plain_shape no_attrs"

definition node50 :: node where
  "node50 = new_Image plain_shape (config_image img50)"

text \<open>A stroked node with a shadow, fully opaque, in stage 0.\<close>

definition shadow_node :: node where
  "shadow_node =
     new_Image (plain_shape\<lparr>hasStroke := True, hasShadow := True, getStage := Some 0\<rparr>) no_attrs"

text \<open>A filled node that wraps the 50 by 50 source, with a crop rectangle.\<close>

definition cropped_node :: node where
  "cropped_node =
     new_Image (plain_shape\<lparr>hasFill := True\<rparr>)
       ((config_image img50)\<lparr>attr_cropX := Some 5, attr_cropY := Some 6,
          attr_cropWidth := Some 10, attr_cropHeight := Some 10\<rparr>)"

text \<open>A filled node with nothing else set.\<close>

definition filled_node :: node where
  "filled_node = new_Image (plain_shape\<lparr>hasFill := True\<rparr>) no_attrs"

text \<open>A context on which \<^verbatim>\<open>drawImage\<close> raises and nothing else does.\<close>

definition broken_drawImage :: "call \<Rightarrow> bool" where
  "broken_drawImage c = isDrawImage c"

text \<open>A callback that records the node it is called with.\<close>

definition record_node :: "node \<Rightarrow> node list \<Rightarrow> node list" where
  "record_node n seen = seen @ [n]"

section \<open>Auxiliary facts\<close>

lemmas sample_defs =
  new_Image_def config_image_def no_attrs_def plain_shape_def img50_def
  bare_node_def node50_def shadow_node_def cropped_node_def filled_node_def

lemmas accessor_defs = cropX_def cropY_def cropWidth_def cropHeight_def

lemmas setter_defs = set_cropX_def set_cropY_def set_cropWidth_def set_cropHeight_def
  set_width_def set_height_def

lemma width_pair: "width this = (fst (width this), this)"
  by (simp add: width_def getWidth_def Let_def)

lemma height_pair: "height this = (fst (height this), this)"
  by (simp add: height_def getHeight_def Let_def)

lemma invoke_all_ok:
  "\<forall>c\<in>set cs. \<not> raises c \<Longrightarrow> invoke_all raises cs ctx = (Inr (), ctx @ cs)"
  by (induction cs arbitrary: ctx) (simp_all add: invoke_def)

lemma invoke_all_no_drawImage:
  "\<forall>c\<in>set cs. \<not> isDrawImage c \<Longrightarrow>
     filter isDrawImage (snd (invoke_all raises cs ctx)) = filter isDrawImage ctx"
  by (induction cs arbitrary: ctx) (simp_all add: invoke_def)

text \<open>
  The scene paint with the threading of the node folded away: the background block, then
  the guarded \<^verbatim>\<open>drawImage\<close>, whose outcome is dropped.
\<close>

lemma sceneFunc_eq:
  "sceneFunc raises this ctx =
     (let w = fst (width this); h = fst (height this);
          bg = (if hasFill this \<or> hasStroke this then
                  invoke_all raises [BeginPath, Rect 0 0 w h, ClosePath, FillStrokeShape this] ctx
                else (Inr (), ctx))
      in case fst bg of
           Inl e \<Rightarrow> (Inl e, this, snd bg)
         | Inr _ \<Rightarrow>
             (case image_acc this of
                None \<Rightarrow> (Inr (), this, snd bg)
              | Some img \<Rightarrow>
                  (Inr (), this,
                   snd bg @
                   [DrawImage
                      (if cropWidth this \<noteq> 0 \<and> cropHeight this \<noteq> 0 then
                         [AImage img, ANum (cropX this), ANum (cropY this),
                          ANum (cropWidth this), ANum (cropHeight this),
                          ANum 0, ANum 0, ANum w, ANum h]
                       else [AImage img, ANum 0, ANum 0, ANum w, ANum h])])))"
  apply (subst sceneFunc_def)
  apply (subst width_pair)
  apply (subst height_pair)
  apply (simp add: Let_def invoke_def split: prod.split sum.split option.split)
  done

lemma hitFunc_eq:
  "hitFunc raises this ctx =
     (let r = invoke_all raises
                [BeginPath, Rect 0 0 (fst (width this)) (fst (height this)), ClosePath,
                 FillStrokeShape this] ctx
      in (fst r, this, snd r))"
  apply (subst hitFunc_def)
  apply (subst width_pair)
  apply (subst height_pair)
  apply (simp add: Let_def split: prod.split)
  done

lemma setter_Inr:
  "setter name store (JNum v) this = Inr (fireChange name (this\<lparr>attrs := store v (attrs this)\<rparr>))"
  by (simp add: setter_def getNumberValidator_def)

lemma setter_result:
  "setter name store val this = Inr this' \<Longrightarrow>
     \<exists>v. val = JNum v \<and> this' = fireChange name (this\<lparr>attrs := store v (attrs this)\<rparr>)"
  by (cases val) (auto simp: setter_def getNumberValidator_def)

lemma set_component_Some:
  "set_component (setter name store) (Some (JNum v)) (Inr this) =
     Inr (fireChange name (this\<lparr>attrs := store v (attrs this)\<rparr>))"
  by (simp add: set_component_def setter_Inr)

lemma set_component_None: "set_component write None r = r"
  by (simp add: set_component_def split: sum.split)

section \<open>The buffering decision\<close>

text \<open>
  Claim C1 as stated asks for a shadow and an opacity other than 1 and a stroke and a
  stage, all four. The method joins the first two with \<^verbatim>\<open>||\<close>: a stroked node with a
  shadow, in a stage, asks for the buffer although its absolute opacity is 1.
\<close>

theorem useBufferCanvas_all_four_counterexample:
  "\<not> (truthy (fst (useBufferCanvas shadow_node)) \<longleftrightarrow>
        hasShadow shadow_node \<and> getAbsoluteOpacity shadow_node \<noteq> 1 \<and>
        hasStroke shadow_node \<and> getStage shadow_node \<noteq> None)"
  by (simp add: useBufferCanvas_def sample_defs)

text \<open>
  Claim C1, amended: \<^verbatim>\<open>_useBufferCanvas\<close> returns a truthy value exactly when the node has
  a shadow or an absolute opacity other than 1, and has a stroke, and is in a stage. Taking
  the stroke away, or the stage, or both the shadow and the partial opacity, makes the
  result falsy.
\<close>

theorem useBufferCanvas_decision:
  "(truthy (fst (useBufferCanvas this)) \<longleftrightarrow>
      (hasShadow this \<or> getAbsoluteOpacity this \<noteq> 1) \<and> hasStroke this \<and> getStage this \<noteq> None)
   \<and> \<not> truthy (fst (useBufferCanvas (this\<lparr>hasStroke := False\<rparr>)))
   \<and> \<not> truthy (fst (useBufferCanvas (this\<lparr>getStage := None\<rparr>)))
   \<and> \<not> truthy (fst (useBufferCanvas (this\<lparr>hasShadow := False, getAbsoluteOpacity := 1\<rparr>)))"
  by (simp add: useBufferCanvas_def split: option.split)

theorem useBufferCanvas_decision_witness:
  "truthy (fst (useBufferCanvas shadow_node))
   \<and> \<not> truthy (fst (useBufferCanvas (shadow_node\<lparr>hasStroke := False\<rparr>)))
   \<and> \<not> truthy (fst (useBufferCanvas (shadow_node\<lparr>getStage := None\<rparr>)))
   \<and> \<not> truthy (fst (useBufferCanvas (shadow_node\<lparr>hasShadow := False, getAbsoluteOpacity := 1\<rparr>)))"
  using useBufferCanvas_decision [of shadow_node] by (simp add: sample_defs)

section \<open>The scene paint\<close>

text \<open>
  Claim C2: with an image present, on a context whose path calls do not raise, the scene
  paint issues the background block, if there is a fill or a stroke, and then one
  \<^verbatim>\<open>drawImage\<close>, the only one: with nine arguments, the source rectangle
  \<open>(cropX, cropY, cropWidth, cropHeight)\<close> and the destination \<open>(0, 0, width, height)\<close>,
  when \<open>cropWidth\<close> and \<open>cropHeight\<close> are both other than 0, and with the five arguments
  \<open>(image, 0, 0, width, height)\<close> when one of them is 0.
\<close>

theorem sceneFunc_drawImage:
  assumes "image_acc this = Some img" and "\<forall>c. raises c \<longrightarrow> isDrawImage c"
  shows "snd (snd (sceneFunc raises this ctx)) =
           ctx @
           (if hasFill this \<or> hasStroke this then
              [BeginPath, Rect 0 0 (fst (width this)) (fst (height this)), ClosePath,
               FillStrokeShape this]
            else []) @
           [DrawImage
              (if cropWidth this \<noteq> 0 \<and> cropHeight this \<noteq> 0 then
                 [AImage img, ANum (cropX this), ANum (cropY this),
                  ANum (cropWidth this), ANum (cropHeight this),
                  ANum 0, ANum 0, ANum (fst (width this)), ANum (fst (height this))]
               else [AImage img, ANum 0, ANum 0, ANum (fst (width this)), ANum (fst (height this))])]
         \<and> length (filter isDrawImage (drop (length ctx) (snd (snd (sceneFunc raises this ctx))))) = 1"
proof -
  let ?bg = "[BeginPath, Rect 0 0 (fst (width this)) (fst (height this)), ClosePath,
              FillStrokeShape this]"
  have quiet: "\<forall>c\<in>set ?bg. \<not> raises c"
    using assms(2) by auto
  have bg: "invoke_all raises ?bg ctx = (Inr (), ctx @ ?bg)"
    by (rule invoke_all_ok [OF quiet])
  show ?thesis
    by (simp add: sceneFunc_eq [of raises this ctx] Let_def bg assms(1) del: invoke_all.simps)
qed

theorem sceneFunc_drawImage_witness:
  "snd (snd (sceneFunc (\<lambda>c. False) cropped_node [])) =
     [BeginPath, Rect 0 0 50 50, ClosePath, FillStrokeShape cropped_node,
      DrawImage [AImage img50, ANum 5, ANum 6, ANum 10, ANum 10, ANum 0, ANum 0, ANum 50, ANum 50]]
   \<and> snd (snd (sceneFunc (\<lambda>c. False) node50 [])) =
     [DrawImage [AImage img50, ANum 0, ANum 0, ANum 50, ANum 50]]"
proof -
  have a: "image_acc cropped_node = Some img50" and b: "image_acc node50 = Some img50"
    by (simp_all add: image_acc_def sample_defs)
  have q: "\<forall>c. (\<lambda>c. False) c \<longrightarrow> isDrawImage c"
    by simp
  show ?thesis
    using sceneFunc_drawImage [OF a q, of "[]"] sceneFunc_drawImage [OF b q, of "[]"]
    by (simp add: width_def height_def getWidth_def getHeight_def image_acc_def
        cropX_def cropY_def cropWidth_def cropHeight_def sample_defs)
qed

section \<open>Width and height\<close>

text \<open>
  Claim C3: \<^verbatim>\<open>getWidth()\<close> returns the stored \<open>width\<close> when it is set and not 0,
  otherwise the intrinsic width of the image when there is one, otherwise 0, and
  \<^verbatim>\<open>getHeight()\<close> does the same with \<open>height\<close>. The two fall back apart: a \<open>width\<close>
  that is set leaves what \<^verbatim>\<open>getHeight()\<close> returns as it was, and the other way round.
\<close>

theorem getWidth_getHeight_fallback:
  "(attr_width (attrs this) = Some w \<and> w \<noteq> 0 \<longrightarrow> fst (getWidth this) = w)
   \<and> ((attr_width (attrs this) = None \<or> attr_width (attrs this) = Some 0) \<and> image_acc this = Some img
        \<longrightarrow> fst (getWidth this) = img_width img)
   \<and> ((attr_width (attrs this) = None \<or> attr_width (attrs this) = Some 0) \<and> image_acc this = None
        \<longrightarrow> fst (getWidth this) = 0)
   \<and> (attr_height (attrs this) = Some h \<and> h \<noteq> 0 \<longrightarrow> fst (getHeight this) = h)
   \<and> ((attr_height (attrs this) = None \<or> attr_height (attrs this) = Some 0) \<and> image_acc this = Some img
        \<longrightarrow> fst (getHeight this) = img_height img)
   \<and> ((attr_height (attrs this) = None \<or> attr_height (attrs this) = Some 0) \<and> image_acc this = None
        \<longrightarrow> fst (getHeight this) = 0)
   \<and> fst (getHeight (this\<lparr>attrs := (attrs this)\<lparr>attr_width := x\<rparr>\<rparr>)) = fst (getHeight this)
   \<and> fst (getWidth (this\<lparr>attrs := (attrs this)\<lparr>attr_height := x\<rparr>\<rparr>)) = fst (getWidth this)
   \<and> (set_width val this = Inr this' \<longrightarrow> fst (getHeight this') = fst (getHeight this))
   \<and> (set_height val this = Inr this'' \<longrightarrow> fst (getWidth this'') = fst (getWidth this))"
proof -
  have "fst (getHeight (this\<lparr>attrs := (attrs this)\<lparr>attr_width := x\<rparr>\<rparr>)) = fst (getHeight this)"
    by (simp add: getHeight_def image_acc_def Let_def)
  moreover have "fst (getWidth (this\<lparr>attrs := (attrs this)\<lparr>attr_height := x\<rparr>\<rparr>)) = fst (getWidth this)"
    by (simp add: getWidth_def image_acc_def Let_def)
  moreover have "fst (getHeight this') = fst (getHeight this)" if "set_width val this = Inr this'"
    using setter_result [OF that [unfolded set_width_def]]
    by (auto simp: getHeight_def image_acc_def fireChange_def Let_def split: option.split)
  moreover have "fst (getWidth this'') = fst (getWidth this)" if "set_height val this = Inr this''"
    using setter_result [OF that [unfolded set_height_def]]
    by (auto simp: getWidth_def image_acc_def fireChange_def Let_def split: option.split)
  moreover have "attr_width (attrs this) = Some w \<and> w \<noteq> 0 \<longrightarrow> fst (getWidth this) = w"
    by (simp add: getWidth_def)
  moreover have "attr_height (attrs this) = Some h \<and> h \<noteq> 0 \<longrightarrow> fst (getHeight this) = h"
    by (simp add: getHeight_def)
  moreover have "(attr_width (attrs this) = None \<or> attr_width (attrs this) = Some 0)
        \<and> image_acc this = Some img \<longrightarrow> fst (getWidth this) = img_width img"
    by (auto simp: getWidth_def)
  moreover have "(attr_width (attrs this) = None \<or> attr_width (attrs this) = Some 0)
        \<and> image_acc this = None \<longrightarrow> fst (getWidth this) = 0"
    by (auto simp: getWidth_def)
  moreover have "(attr_height (attrs this) = None \<or> attr_height (attrs this) = Some 0)
        \<and> image_acc this = Some img \<longrightarrow> fst (getHeight this) = img_height img"
    by (auto simp: getHeight_def)
  moreover have "(attr_height (attrs this) = None \<or> attr_height (attrs this) = Some 0)
        \<and> image_acc this = None \<longrightarrow> fst (getHeight this) = 0"
    by (auto simp: getHeight_def)
  ultimately show ?thesis
    by blast
qed

text \<open>
  The run of the specification: a 50 by 50 source and no size set give 50 and 50; after
  \<^verbatim>\<open>width(80)\<close> the width is 80 and the height still 50.
\<close>

theorem getWidth_getHeight_fallback_witness:
  "fst (getWidth node50) = 50 \<and> fst (getHeight node50) = 50
   \<and> set_width (JNum 80) node50 =
       Inr (fireChange ''width'' (node50\<lparr>attrs := (attrs node50)\<lparr>attr_width := Some 80\<rparr>\<rparr>))
   \<and> fst (getWidth (fireChange ''width'' (node50\<lparr>attrs := (attrs node50)\<lparr>attr_width := Some 80\<rparr>\<rparr>))) = 80
   \<and> fst (getHeight (fireChange ''width'' (node50\<lparr>attrs := (attrs node50)\<lparr>attr_width := Some 80\<rparr>\<rparr>))) = 50"
proof -
  let ?n = "fireChange ''width'' (node50\<lparr>attrs := (attrs node50)\<lparr>attr_width := Some 80\<rparr>\<rparr>)"
  have s: "set_width (JNum 80) node50 = Inr ?n"
    by (simp add: set_width_def setter_Inr)
  have i: "image_acc node50 = Some img50" "attr_width (attrs node50) = None"
    "attr_height (attrs node50) = None" "img_width img50 = 50" "img_height img50 = 50"
    by (simp_all add: image_acc_def sample_defs)
  have w: "attr_width (attrs ?n) = Some 80"
    by (simp add: fireChange_def)
  show ?thesis
    using getWidth_getHeight_fallback [of node50 0 img50 0 None "JNum 80" ?n node50]
      getWidth_getHeight_fallback [of ?n 80 img50 0 None "JNum 80" ?n node50]
      s i w
    by simp
qed

section \<open>A context whose drawImage raises\<close>

text \<open>
  Claim C4: on a context whose \<^verbatim>\<open>drawImage\<close> raises, and whose path calls do not, the
  scene paint returns without an error. When the node has an image, the call that raised
  is the last one issued, and all that was issued before it in this paint is the
  background block of a node with a fill or a stroke: the background is on the context
  before \<^verbatim>\<open>drawImage\<close> is tried.
\<close>

theorem sceneFunc_drawImage_raises:
  assumes "\<forall>ps. raises (DrawImage ps)" and "\<forall>c. raises c \<longrightarrow> isDrawImage c"
  shows "fst (sceneFunc raises this ctx) = Inr ()
         \<and> (image_acc this \<noteq> None \<longrightarrow>
              butlast (snd (snd (sceneFunc raises this ctx))) =
                ctx @
                (if hasFill this \<or> hasStroke this then
                   [BeginPath, Rect 0 0 (fst (width this)) (fst (height this)), ClosePath,
                    FillStrokeShape this]
                 else [])
              \<and> isDrawImage (last (snd (snd (sceneFunc raises this ctx))))
              \<and> raises (last (snd (snd (sceneFunc raises this ctx)))))"
proof -
  let ?bg = "[BeginPath, Rect 0 0 (fst (width this)) (fst (height this)), ClosePath,
              FillStrokeShape this]"
  have quiet: "\<forall>c\<in>set ?bg. \<not> raises c"
    using assms(2) by auto
  have bg: "invoke_all raises ?bg ctx = (Inr (), ctx @ ?bg)"
    by (rule invoke_all_ok [OF quiet])
  show ?thesis
    using assms(1)
    by (simp add: sceneFunc_eq [of raises this ctx] Let_def bg butlast_append
        del: invoke_all.simps split: option.split)
qed

theorem sceneFunc_drawImage_raises_witness:
  "fst (sceneFunc broken_drawImage cropped_node []) = Inr ()
   \<and> butlast (snd (snd (sceneFunc broken_drawImage cropped_node []))) =
       [BeginPath, Rect 0 0 50 50, ClosePath, FillStrokeShape cropped_node]
   \<and> isDrawImage (last (snd (snd (sceneFunc broken_drawImage cropped_node []))))
   \<and> broken_drawImage (last (snd (snd (sceneFunc broken_drawImage cropped_node []))))"
proof -
  have a: "\<forall>ps. broken_drawImage (DrawImage ps)"
    and b: "\<forall>c. broken_drawImage c \<longrightarrow> isDrawImage c"
    by (simp_all add: broken_drawImage_def)
  have i: "image_acc cropped_node \<noteq> None" "hasFill cropped_node"
    "fst (width cropped_node) = 50" "fst (height cropped_node) = 50"
    by (simp_all add: width_def height_def getWidth_def getHeight_def image_acc_def sample_defs)
  show ?thesis
    using sceneFunc_drawImage_raises [OF a b, of cropped_node "[]"] i by simp
qed

section \<open>A node without an image\<close>

text \<open>
  Claim C5: a node with no image and neither fill nor stroke issues no call at all in the
  scene paint, whatever the context does. A node with no image and a fill or a stroke
  issues the rectangle \<open>(0, 0, width, height)\<close> as a path and \<^verbatim>\<open>fillStrokeShape\<close>, on
  a context whose path calls do not raise, and nothing else. In neither case is there a
  \<^verbatim>\<open>drawImage\<close>.
\<close>

theorem sceneFunc_no_image:
  assumes "image_acc this = None"
  shows "(\<not> hasFill this \<and> \<not> hasStroke this \<longrightarrow>
            sceneFunc raises this ctx = (Inr (), this, ctx))
         \<and> ((hasFill this \<or> hasStroke this) \<and> (\<forall>c. raises c \<longrightarrow> isDrawImage c) \<longrightarrow>
              sceneFunc raises this ctx =
                (Inr (), this,
                 ctx @ [BeginPath, Rect 0 0 (fst (width this)) (fst (height this)), ClosePath,
                        FillStrokeShape this]))
         \<and> filter isDrawImage (snd (snd (sceneFunc raises this ctx))) = filter isDrawImage ctx"
proof -
  let ?bg = "[BeginPath, Rect 0 0 (fst (width this)) (fst (height this)), ClosePath,
              FillStrokeShape this]"
  have none: "\<not> hasFill this \<and> \<not> hasStroke this \<longrightarrow>
            sceneFunc raises this ctx = (Inr (), this, ctx)"
    by (simp add: sceneFunc_eq [of raises this ctx] Let_def assms)
  have bg: "invoke_all raises ?bg ctx = (Inr (), ctx @ ?bg)" if "\<forall>c. raises c \<longrightarrow> isDrawImage c"
  proof -
    have "\<forall>c\<in>set ?bg. \<not> raises c"
      using that by auto
    then show ?thesis
      by (rule invoke_all_ok)
  qed
  have some: "(hasFill this \<or> hasStroke this) \<and> (\<forall>c. raises c \<longrightarrow> isDrawImage c) \<longrightarrow>
              sceneFunc raises this ctx = (Inr (), this, ctx @ ?bg)"
    using bg by (simp add: sceneFunc_eq [of raises this ctx] Let_def assms del: invoke_all.simps)
  have "\<forall>c\<in>set ?bg. \<not> isDrawImage c"
    by simp
  then have quiet: "filter isDrawImage (snd (invoke_all raises ?bg ctx)) = filter isDrawImage ctx"
    by (rule invoke_all_no_drawImage)
  have never: "filter isDrawImage (snd (snd (sceneFunc raises this ctx))) = filter isDrawImage ctx"
    using quiet
    by (simp add: sceneFunc_eq [of raises this ctx] Let_def assms
        del: invoke_all.simps split: sum.split)
  from none some never show ?thesis
    by blast
qed

theorem sceneFunc_no_image_witness:
  "sceneFunc broken_drawImage bare_node [] = (Inr (), bare_node, [])
   \<and> sceneFunc broken_drawImage filled_node [] =
       (Inr (), filled_node, [BeginPath, Rect 0 0 0 0, ClosePath, FillStrokeShape filled_node])"
proof -
  have a: "image_acc bare_node = None" and b: "image_acc filled_node = None"
    by (simp_all add: image_acc_def sample_defs)
  have q: "\<forall>c. broken_drawImage c \<longrightarrow> isDrawImage c"
    by (simp add: broken_drawImage_def)
  have w: "fst (width filled_node) = 0" "fst (height filled_node) = 0"
    by (simp_all add: width_def height_def getWidth_def getHeight_def image_acc_def sample_defs)
  have f: "hasFill filled_node" "\<not> hasFill bare_node" "\<not> hasStroke bare_node"
    by (simp_all add: sample_defs)
  show ?thesis
    using sceneFunc_no_image [OF a, of broken_drawImage "[]"]
      sceneFunc_no_image [OF b, of broken_drawImage "[]"] q w f
    by simp
qed

section \<open>The hit paint\<close>

text \<open>
  Claim C6: for every node, with or without image, crop or shadow, the hit paint issues
  one rectangle path, \<^verbatim>\<open>beginPath\<close>, \<^verbatim>\<open>rect(0, 0, width, height)\<close>, \<^verbatim>\<open>closePath\<close>, and
  then \<^verbatim>\<open>fillStrokeShape\<close>, on a context whose path calls do not raise. It never issues
  a \<^verbatim>\<open>drawImage\<close>, whatever the context does.
\<close>

theorem hitFunc_rect:
  "((\<forall>c. raises c \<longrightarrow> isDrawImage c) \<longrightarrow>
      hitFunc raises this ctx =
        (Inr (), this,
         ctx @ [BeginPath, Rect 0 0 (fst (width this)) (fst (height this)), ClosePath,
                FillStrokeShape this]))
   \<and> filter isDrawImage (snd (snd (hitFunc raises this ctx))) = filter isDrawImage ctx"
proof -
  let ?bg = "[BeginPath, Rect 0 0 (fst (width this)) (fst (height this)), ClosePath,
              FillStrokeShape this]"
  have bg: "invoke_all raises ?bg ctx = (Inr (), ctx @ ?bg)" if "\<forall>c. raises c \<longrightarrow> isDrawImage c"
  proof -
    have "\<forall>c\<in>set ?bg. \<not> raises c"
      using that by auto
    then show ?thesis
      by (rule invoke_all_ok)
  qed
  have "\<forall>c\<in>set ?bg. \<not> isDrawImage c"
    by simp
  then have quiet: "filter isDrawImage (snd (invoke_all raises ?bg ctx)) = filter isDrawImage ctx"
    by (rule invoke_all_no_drawImage)
  show ?thesis
    using bg quiet by (simp add: hitFunc_eq [of raises this ctx] Let_def del: invoke_all.simps)
qed

text \<open>A node with image and crop, and a node with a shadow and neither.\<close>

theorem hitFunc_rect_witness:
  "hitFunc broken_drawImage cropped_node [] =
     (Inr (), cropped_node, [BeginPath, Rect 0 0 50 50, ClosePath, FillStrokeShape cropped_node])
   \<and> hitFunc broken_drawImage shadow_node [] =
     (Inr (), shadow_node, [BeginPath, Rect 0 0 0 0, ClosePath, FillStrokeShape shadow_node])"
proof -
  have q: "\<forall>c. broken_drawImage c \<longrightarrow> isDrawImage c"
    by (simp add: broken_drawImage_def)
  have w: "fst (width cropped_node) = 50" "fst (height cropped_node) = 50"
    "fst (width shadow_node) = 0" "fst (height shadow_node) = 0"
    by (simp_all add: width_def height_def getWidth_def getHeight_def image_acc_def sample_defs)
  show ?thesis
    using hitFunc_rect [of broken_drawImage cropped_node "[]"]
      hitFunc_rect [of broken_drawImage shadow_node "[]"] q w
    by simp
qed

section \<open>The numeric accessors\<close>

text \<open>
  Claim C7 as stated has the round trip for \<open>width\<close> and \<open>height\<close> at every number. On a
  node that wraps a 50 by 50 source, \<^verbatim>\<open>width(0)\<close> is accepted and \<^verbatim>\<open>width()\<close> then
  reads 50: \<^verbatim>\<open>getWidth()\<close> takes a stored 0 for no width.
\<close>

theorem width_roundtrip_counterexample:
  "map_sum id (fst \<circ> width) (set_width (JNum 0) node50) = Inr 50
   \<and> map_sum id (fst \<circ> width) (set_width (JNum 0) node50) \<noteq> Inr 0"
  by (simp add: set_width_def setter_Inr fireChange_def width_def getWidth_def image_acc_def
      sample_defs)

text \<open>
  Claim C7, amended: for every number \<open>v\<close>, setting \<open>cropX\<close> to \<open>v\<close> succeeds and reading
  \<open>cropX\<close> then returns \<open>v\<close>, and the same for \<open>cropY\<close>, \<open>cropWidth\<close> and \<open>cropHeight\<close>.
  For \<open>width\<close> and \<open>height\<close> the round trip holds for every \<open>v\<close> other than 0; after
  setting 0 the read returns the intrinsic dimension of the image when there is one, and 0
  otherwise. An attribute among \<open>cropX\<close>, \<open>cropY\<close>, \<open>cropWidth\<close>, \<open>cropHeight\<close> that
  was never set reads 0.
\<close>

theorem accessor_roundtrip:
  "map_sum id cropX (set_cropX (JNum v) this) = Inr v
   \<and> map_sum id cropY (set_cropY (JNum v) this) = Inr v
   \<and> map_sum id cropWidth (set_cropWidth (JNum v) this) = Inr v
   \<and> map_sum id cropHeight (set_cropHeight (JNum v) this) = Inr v
   \<and> map_sum id (fst \<circ> width) (set_width (JNum v) this) =
       Inr (if v \<noteq> 0 then v
            else case image_acc this of Some img \<Rightarrow> img_width img | None \<Rightarrow> 0)
   \<and> map_sum id (fst \<circ> height) (set_height (JNum v) this) =
       Inr (if v \<noteq> 0 then v
            else case image_acc this of Some img \<Rightarrow> img_height img | None \<Rightarrow> 0)
   \<and> (attr_cropX (attrs this) = None \<longrightarrow> cropX this = 0)
   \<and> (attr_cropY (attrs this) = None \<longrightarrow> cropY this = 0)
   \<and> (attr_cropWidth (attrs this) = None \<longrightarrow> cropWidth this = 0)
   \<and> (attr_cropHeight (attrs this) = None \<longrightarrow> cropHeight this = 0)"
  by (simp add: setter_defs setter_Inr fireChange_def accessor_defs
      width_def height_def getWidth_def getHeight_def image_acc_def)

theorem accessor_roundtrip_witness:
  "map_sum id cropX (set_cropX (JNum 20) bare_node) = Inr 20
   \<and> map_sum id (fst \<circ> width) (set_width (JNum 80) node50) = Inr 80
   \<and> map_sum id (fst \<circ> height) (set_height (JNum 0) node50) = Inr 50
   \<and> cropX bare_node = 0 \<and> cropY bare_node = 0
   \<and> cropWidth bare_node = 0 \<and> cropHeight bare_node = 0"
proof -
  have n: "attr_cropX (attrs bare_node) = None" "attr_cropY (attrs bare_node) = None"
    "attr_cropWidth (attrs bare_node) = None" "attr_cropHeight (attrs bare_node) = None"
    by (simp_all add: sample_defs)
  have i: "image_acc node50 = Some img50" "img_height img50 = 50"
    by (simp_all add: image_acc_def sample_defs)
  show ?thesis
    using accessor_roundtrip [of 20 bare_node] accessor_roundtrip [of 80 node50]
      accessor_roundtrip [of 0 node50] n i
    by simp
qed

section \<open>The composite crop\<close>

text \<open>
  Claim C8: setting \<open>crop\<close> with all four components and reading \<open>crop\<close> returns the
  four components that were set; setting \<open>crop\<close> with \<open>x\<close> alone changes \<open>cropX\<close> and
  leaves \<open>cropY\<close>, \<open>cropWidth\<close> and \<open>cropHeight\<close> as they were; and a setter of one
  crop component that succeeds leaves the other three components as they were.
\<close>

theorem crop_composite:
  "map_sum id crop
     (set_crop \<lparr>arg_x = Some (JNum a), arg_y = Some (JNum b),
                arg_width = Some (JNum c), arg_height = Some (JNum d)\<rparr> this) =
     Inr \<lparr>rect_x = a, rect_y = b, rect_width = c, rect_height = d\<rparr>
   \<and> map_sum id crop
       (set_crop \<lparr>arg_x = Some (JNum a), arg_y = None, arg_width = None, arg_height = None\<rparr> this) =
       Inr ((crop this)\<lparr>rect_x := a\<rparr>)
   \<and> (set_cropX val this = Inr this1 \<longrightarrow>
        cropY this1 = cropY this \<and> cropWidth this1 = cropWidth this
        \<and> cropHeight this1 = cropHeight this)
   \<and> (set_cropY val this = Inr this2 \<longrightarrow>
        cropX this2 = cropX this \<and> cropWidth this2 = cropWidth this
        \<and> cropHeight this2 = cropHeight this)
   \<and> (set_cropWidth val this = Inr this3 \<longrightarrow>
        cropX this3 = cropX this \<and> cropY this3 = cropY this
        \<and> cropHeight this3 = cropHeight this)
   \<and> (set_cropHeight val this = Inr this4 \<longrightarrow>
        cropX this4 = cropX this \<and> cropY this4 = cropY this
        \<and> cropWidth this4 = cropWidth this)"
proof -
  have full: "map_sum id crop
     (set_crop \<lparr>arg_x = Some (JNum a), arg_y = Some (JNum b),
                arg_width = Some (JNum c), arg_height = Some (JNum d)\<rparr> this) =
     Inr \<lparr>rect_x = a, rect_y = b, rect_width = c, rect_height = d\<rparr>"
    by (simp add: set_crop_def setter_defs set_component_Some crop_def accessor_defs fireChange_def)
  have part: "map_sum id crop
       (set_crop \<lparr>arg_x = Some (JNum a), arg_y = None, arg_width = None, arg_height = None\<rparr> this) =
       Inr ((crop this)\<lparr>rect_x := a\<rparr>)"
    by (simp add: set_crop_def setter_defs set_component_Some set_component_None crop_def
        accessor_defs fireChange_def)
  have x: "cropY this1 = cropY this \<and> cropWidth this1 = cropWidth this
        \<and> cropHeight this1 = cropHeight this" if "set_cropX val this = Inr this1"
    using setter_result [OF that [unfolded set_cropX_def]]
    by (auto simp: accessor_defs fireChange_def)
  have y: "cropX this2 = cropX this \<and> cropWidth this2 = cropWidth this
        \<and> cropHeight this2 = cropHeight this" if "set_cropY val this = Inr this2"
    using setter_result [OF that [unfolded set_cropY_def]]
    by (auto simp: accessor_defs fireChange_def)
  have w: "cropX this3 = cropX this \<and> cropY this3 = cropY this
        \<and> cropHeight this3 = cropHeight this" if "set_cropWidth val this = Inr this3"
    using setter_result [OF that [unfolded set_cropWidth_def]]
    by (auto simp: accessor_defs fireChange_def)
  have h: "cropX this4 = cropX this \<and> cropY this4 = cropY this
        \<and> cropWidth this4 = cropWidth this" if "set_cropHeight val this = Inr this4"
    using setter_result [OF that [unfolded set_cropHeight_def]]
    by (auto simp: accessor_defs fireChange_def)
  from full part x y w h show ?thesis
    by blast
qed

text \<open>
  The run of the specification: \<^verbatim>\<open>crop({x:1, y:2, width:3, height:4})\<close> and then
  \<^verbatim>\<open>crop({x:9})\<close>.
\<close>

theorem crop_composite_witness:
  "map_sum id crop
     (set_crop \<lparr>arg_x = Some (JNum 1), arg_y = Some (JNum 2),
                arg_width = Some (JNum 3), arg_height = Some (JNum 4)\<rparr> bare_node) =
     Inr \<lparr>rect_x = 1, rect_y = 2, rect_width = 3, rect_height = 4\<rparr>
   \<and> map_sum id crop
       (case_sum Inl
          (set_crop \<lparr>arg_x = Some (JNum 9), arg_y = None, arg_width = None, arg_height = None\<rparr>)
          (set_crop \<lparr>arg_x = Some (JNum 1), arg_y = Some (JNum 2),
                     arg_width = Some (JNum 3), arg_height = Some (JNum 4)\<rparr> bare_node)) =
       Inr \<lparr>rect_x = 9, rect_y = 2, rect_width = 3, rect_height = 4\<rparr>"
proof -
  let ?full = "\<lparr>arg_x = Some (JNum 1), arg_y = Some (JNum 2),
                arg_width = Some (JNum 3), arg_height = Some (JNum 4)\<rparr>"
  have first: "map_sum id crop (set_crop ?full bare_node) =
      Inr \<lparr>rect_x = 1, rect_y = 2, rect_width = 3, rect_height = 4\<rparr>"
    using crop_composite [of 1 2 3 4 bare_node] by simp
  then obtain n where n: "set_crop ?full bare_node = Inr n"
    and c: "crop n = \<lparr>rect_x = 1, rect_y = 2, rect_width = 3, rect_height = 4\<rparr>"
    by (cases "set_crop ?full bare_node") auto
  have "map_sum id crop
       (set_crop \<lparr>arg_x = Some (JNum 9), arg_y = None, arg_width = None, arg_height = None\<rparr> n) =
       Inr \<lparr>rect_x = 9, rect_y = 2, rect_width = 3, rect_height = 4\<rparr>"
    using crop_composite [of 9 0 0 0 n] c by simp
  with first n show ?thesis
    by simp
qed

section \<open>The loader\<close>

text \<open>
  Claim C9: \<^verbatim>\<open>fromURL(url, callback)\<close> creates an image element and starts one fetch, of
  \<open>url\<close>, with \<^verbatim>\<open>crossOrigin\<close> already set to \<^verbatim>\<open>'Anonymous'\<close>. When the load completes,
  the handler calls \<open>callback\<close> once, with a new Image node whose \<open>image\<close> attribute is
  the loaded element. No error handler is installed: a failed fetch calls nothing.
\<close>

theorem fromURL_contract:
  "el_requests (fromURL fresh h url callback) = [(url, Some ''Anonymous'')]
   \<and> el_crossOrigin (fromURL fresh h url callback) = Some ''Anonymous''
   \<and> el_src (fromURL fresh h url callback) = Some url
   \<and> el_source (fromURL fresh h url callback) = h
   \<and> deliver (Loaded w h') (fromURL fresh h url callback) s =
       callback (new_Image fresh (config_image (h\<lparr>img_width := w, img_height := h'\<rparr>))) s
   \<and> image_acc (new_Image fresh (config_image (h\<lparr>img_width := w, img_height := h'\<rparr>))) =
       Some (h\<lparr>img_width := w, img_height := h'\<rparr>)
   \<and> el_onerror (fromURL fresh h url callback) = None
   \<and> deliver Failed (fromURL fresh h url callback) s = s"
  by (simp add: fromURL_def createImageElement_def assign_src_def deliver_def Let_def
      image_acc_def new_Image_def config_image_def)

text \<open>With a callback that records its argument: one node after a load, none after a failure.\<close>

theorem fromURL_contract_witness:
  "el_requests (fromURL plain_shape (img50\<lparr>img_width := 0, img_height := 0\<rparr>) ''a.png'' record_node) =
     [(''a.png'', Some ''Anonymous'')]
   \<and> deliver (Loaded 50 50)
       (fromURL plain_shape (img50\<lparr>img_width := 0, img_height := 0\<rparr>) ''a.png'' record_node) [] =
       [node50]
   \<and> image_acc node50 = Some img50
   \<and> deliver Failed
       (fromURL plain_shape (img50\<lparr>img_width := 0, img_height := 0\<rparr>) ''a.png'' record_node) [] = []"
  using fromURL_contract [of plain_shape "img50\<lparr>img_width := 0, img_height := 0\<rparr>" "''a.png''"
      record_node 50 50 "[]"]
  by (simp add: record_node_def node50_def img50_def)

section \<open>The methods only read the node\<close>

text \<open>
  Claim C10: \<^verbatim>\<open>_sceneFunc\<close>, \<^verbatim>\<open>_hitFunc\<close>, \<^verbatim>\<open>_useBufferCanvas\<close>, \<^verbatim>\<open>getWidth\<close> and
  \<^verbatim>\<open>getHeight\<close> leave the node as it was, attributes and all, on every context, also on
  one whose \<^verbatim>\<open>drawImage\<close> raises.
\<close>

theorem methods_leave_node:
  "fst (snd (sceneFunc raises this ctx)) = this
   \<and> fst (snd (hitFunc raises this ctx)) = this
   \<and> snd (useBufferCanvas this) = this
   \<and> snd (getWidth this) = this
   \<and> snd (getHeight this) = this"
  by (simp add: sceneFunc_eq [of raises this ctx] hitFunc_eq [of raises this ctx] Let_def
      useBufferCanvas_def getWidth_def getHeight_def
      del: invoke_all.simps split: sum.split option.split)

theorem methods_leave_node_witness:
  "fst (snd (sceneFunc broken_drawImage cropped_node [])) = cropped_node
   \<and> fst (snd (hitFunc broken_drawImage cropped_node [])) = cropped_node
   \<and> snd (useBufferCanvas cropped_node) = cropped_node
   \<and> snd (getWidth cropped_node) = cropped_node
   \<and> snd (getHeight cropped_node) = cropped_node"
  by (rule methods_leave_node [of broken_drawImage cropped_node "[]"])

end
